theory Spec2Isabelle
  imports Main
begin

section \<open>Strings and the string operations of the generator\<close>

text \<open>
  The generator of \<^verbatim>\<open>src/lib/effect-schema-class.ts\<close> is a function from a list of table
  definitions to one string. A JavaScript string is modelled as a \<^typ>\<open>string\<close>, a list
  of characters. The two characters of the source text outside ASCII (the angle brackets
  of the pattern used for a \<^verbatim>\<open>record\<close> field without reference) are written as their
  UTF-8 bytes.

  JavaScript converts case by the Unicode tables of the engine, which are not among the
  sources. The generator lower-cases a type tag only to compare the result with type
  tags made of ASCII letters, and \<^verbatim>\<open>toLowerCase\<close> below converts the ASCII letters and leaves
  every other character as it is. This gives the same comparisons as JavaScript: the one
  character outside ASCII that JavaScript lower-cases to ASCII letters alone is the
  Kelvin sign, which becomes \<^verbatim>\<open>k\<close>, a letter of no type tag. The generator upper-cases the
  first character of a table name, and the result is part of the output;
  \<^verbatim>\<open>toUpperCase\<close> below is applied to ASCII characters only, where it is the conversion of
  JavaScript, and the name formatter takes what JavaScript does for other names as a
  parameter.
\<close>

abbreviation (input) sq :: string where
  "sq \<equiv> [CHR 0x27]"

abbreviation (input) bs :: char where
  "bs \<equiv> CHR 0x5C"

definition upperLetters :: string where
  "upperLetters = ''ABCDEFGHIJKLMNOPQRSTUVWXYZ''"

definition lowerLetters :: string where
  "lowerLetters = ''abcdefghijklmnopqrstuvwxyz''"

definition lowerChar :: "char \<Rightarrow> char" where
  "lowerChar c = (case map_of (zip upperLetters lowerLetters) c of Some d \<Rightarrow> d | None \<Rightarrow> c)"

definition upperChar :: "char \<Rightarrow> char" where
  "upperChar c = (case map_of (zip lowerLetters upperLetters) c of Some d \<Rightarrow> d | None \<Rightarrow> c)"

definition toLowerCase :: "string \<Rightarrow> string" where
  "toLowerCase s = map lowerChar s"

text \<open>\<^verbatim>\<open>s.toUpperCase()\<close> for a string \<open>s\<close> of ASCII characters.\<close>

definition toUpperCase :: "string \<Rightarrow> string" where
  "toUpperCase s = map upperChar s"

definition isAscii :: "char \<Rightarrow> bool" where
  "isAscii c = (of_char c < (128 :: nat))"

text \<open>\<^verbatim>\<open>s.charAt(i)\<close> is the empty string when \<open>i\<close> is out of range.\<close>

definition charAt :: "string \<Rightarrow> nat \<Rightarrow> string" where
  "charAt s i = (if i < length s then [s ! i] else [])"

text \<open>\<^verbatim>\<open>s.slice(i)\<close> for an index \<open>i \<ge> 0\<close>.\<close>

definition slice :: "string \<Rightarrow> nat \<Rightarrow> string" where
  "slice s i = drop i s"

fun startsWith :: "string \<Rightarrow> string \<Rightarrow> bool" where
  "startsWith s [] = True"
| "startsWith [] (p # ps) = False"
| "startsWith (c # cs) (p # ps) = (c = p \<and> startsWith cs ps)"

fun includes_str :: "string \<Rightarrow> string \<Rightarrow> bool" where
  "includes_str [] p = (p = [])"
| "includes_str (c # cs) p = (startsWith (c # cs) p \<or> includes_str cs p)"

text \<open>\<^verbatim>\<open>xs.join(sep)\<close> on an array of strings.\<close>

fun join :: "string \<Rightarrow> string list \<Rightarrow> string" where
  "join sep [] = []"
| "join sep [x] = x"
| "join sep (x # y # ys) = x @ sep @ join sep (y # ys)"

text \<open>
  \<^verbatim>\<open>s.replace(/\\'/g, "'")\<close>: every occurrence of a backslash followed by a single quote,
  found from left to right without overlap, becomes a single quote.
\<close>

fun unescapeQuotes :: "string \<Rightarrow> string" where
  "unescapeQuotes [] = []"
| "unescapeQuotes [c] = [c]"
| "unescapeQuotes (c # d # cs) =
     (if c = bs \<and> d = CHR 0x27 then CHR 0x27 # unescapeQuotes cs
      else c # unescapeQuotes (d # cs))"

text \<open>\<^verbatim>\<open>s.replace(/'/g, "\\'")\<close>: every single quote gets a backslash in front.\<close>

fun escapeQuotes :: "string \<Rightarrow> string" where
  "escapeQuotes [] = []"
| "escapeQuotes (c # cs) =
     (if c = CHR 0x27 then bs # CHR 0x27 # escapeQuotes cs else c # escapeQuotes cs)"

text \<open>
  The test \<^verbatim>\<open>/^-?\d+(\.\d+)?$/.test(s)\<close>: an optional minus sign, one or more decimal
  digits, and optionally a dot followed by one or more decimal digits, up to the end of
  the string. The expression has no flag, so \<^verbatim>\<open>\d\<close> is a digit from 0 to 9 and the anchors
  are the two ends of the string.
\<close>

definition isDigit :: "char \<Rightarrow> bool" where
  "isDigit c = (c \<in> set ''0123456789'')"

definition optMinus :: "string \<Rightarrow> string" where
  "optMinus s = (case s of [] \<Rightarrow> [] | c # cs \<Rightarrow> if c = CHR ''-'' then cs else c # cs)"

definition numericPattern :: "string \<Rightarrow> bool" where
  "numericPattern s =
     (let s1 = optMinus s;
          ds = takeWhile isDigit s1;
          r = dropWhile isDigit s1
      in ds \<noteq> [] \<and>
         (case r of
            [] \<Rightarrow> True
          | c # fs \<Rightarrow> c = CHR ''.'' \<and> fs \<noteq> [] \<and> list_all isDigit fs))"


section \<open>The input: table and field definitions\<close>

text \<open>
  Modelled from the spec: the types \<^verbatim>\<open>TableDefinition\<close> and \<^verbatim>\<open>FieldDefinition\<close> are imported
  from \<^verbatim>\<open>./schema.ts\<close>, which is not among the sources. The spec gives them as
  \<^verbatim>\<open>{ name: string, description?: string, fields: FieldDefinition[] }\<close> and
  \<^verbatim>\<open>{ name: string, type: string, optional: boolean, description?: string,
  defaultValue?: string, reference?: { table: string } }\<close>. A property marked \<^verbatim>\<open>?\<close> is an
  \<^typ>\<open>'a option\<close>, with \<^const>\<open>None\<close> for a missing property.
\<close>

record Reference =
  ref_table :: string

record FieldDefinition =
  field_name :: string
  field_type :: string
  field_optional :: bool
  field_description :: "string option"
  field_defaultValue :: "string option"
  field_reference :: "Reference option"

record TableDefinition =
  table_name :: string
  table_description :: "string option"
  table_fields :: "FieldDefinition list"


section \<open>The generator\<close>

subsection \<open>Name formatter\<close>

text \<open>
  For a name that is empty or starts with an ASCII character, \<^verbatim>\<open>charAt(0)\<close> is empty or
  that character, and the body of the source function is evaluated as it stands. For a
  name that starts with a character outside ASCII the result of the body depends on the
  Unicode case tables of the engine. They are not among the sources, so what the body
  gives for such a name is the parameter \<open>capitalizeUnicode\<close>, about which nothing is
  assumed.
\<close>

definition formatClassName :: "(string \<Rightarrow> string) \<Rightarrow> string \<Rightarrow> string" where
  "formatClassName capitalizeUnicode tableName =
     (if list_all isAscii (charAt tableName 0)
      then toUpperCase (charAt tableName 0) @ slice tableName 1
      else capitalizeUnicode tableName)"

subsection \<open>Annotation composer\<close>

text \<open>
  The conditions \<^verbatim>\<open>if (field.description)\<close> and \<^verbatim>\<open>if (field.defaultValue)\<close> test a value of
  type \<^verbatim>\<open>string | undefined\<close> for truthiness: they fail for a missing property and for the
  empty string.
\<close>

definition escapedDescription :: "string \<Rightarrow> string" where
  "escapedDescription d = escapeQuotes (unescapeQuotes d)"

definition descriptionAnnotation :: "FieldDefinition \<Rightarrow> string list" where
  "descriptionAnnotation field =
     (case field_description field of
        None \<Rightarrow> []
      | Some d \<Rightarrow>
          if d = [] then []
          else [''description: '' @ sq @ escapedDescription d @ sq])"

definition needsQuotes :: "string \<Rightarrow> bool" where
  \<open>needsQuotes v =
     (\<not> startsWith v sq \<and>
      \<not> startsWith v ''"'' \<and>
      v \<noteq> ''true'' \<and>
      v \<noteq> ''false'' \<and>
      \<not> numericPattern v \<and>
      \<not> startsWith v ''['' \<and>
      \<not> startsWith v ''{'')\<close>

definition defaultAnnotation :: "FieldDefinition \<Rightarrow> string list" where
  "defaultAnnotation field =
     (case field_defaultValue field of
        None \<Rightarrow> []
      | Some v \<Rightarrow>
          if v = [] then []
          else if includes_str v ''::'' then
            (if toLowerCase (field_type field) = ''datetime''
             then [''surrealDefault: '' @ sq @ v @ sq]
             else [''default: '' @ (sq @ v @ sq)])
          else [''default: '' @ (if needsQuotes v then sq @ v @ sq else v)])"

text \<open>
  The array \<^verbatim>\<open>annotations\<close> starts empty and receives at most one entry from each of the
  two conditionals, the description first.
\<close>

definition annotations :: "FieldDefinition \<Rightarrow> string list" where
  "annotations field = descriptionAnnotation field @ defaultAnnotation field"

definition annotationsStr :: "FieldDefinition \<Rightarrow> string" where
  "annotationsStr field =
     (if length (annotations field) > 0
      then ''.annotations({ '' @ join '', '' (annotations field) @ '' })''
      else [])"

subsection \<open>Field type mapper\<close>

definition colonPattern :: string where
  "colonPattern = ''/^[a-zA-Z0-9_-]+:[a-zA-Z0-9_-]+$/''"

definition recordFallbackPattern :: string where
  "recordFallbackPattern =
     ''/^[a-zA-Z0-9_-]+:'' @ [CHR 0xE2, CHR 0x9F, CHR 0xA8] @ [bs] @ ''d+''
       @ [CHR 0xE2, CHR 0x9F, CHR 0xA9] @ ''$/''"

text \<open>The \<^verbatim>\<open>switch\<close> on the lower-cased type tag, its cases in the order of the source.\<close>

definition mappedType :: "FieldDefinition \<Rightarrow> string" where
  \<open>mappedType field =
     (let t = toLowerCase (field_type field);
          a = annotationsStr field
      in if t = ''int'' \<or> t = ''number'' then ''Schema.Number.pipe(Schema.int())'' @ a
         else if t = ''float'' then ''Schema.Number'' @ a
         else if t = ''bool'' then ''Schema.Boolean'' @ a
         else if t = ''datetime'' then ''Schema.Date'' @ a
         else if t = ''array'' then ''Schema.Array(Schema.String)'' @ a
         else if t = ''array_float'' then ''Schema.Array(Schema.Number)'' @ a
         else if t = ''array_record'' then
           (case field_reference field of
              Some r \<Rightarrow> ''Schema.Array(recordId("'' @ ref_table r @ ''"))'' @ a
            | None \<Rightarrow>
                ''Schema.Array(Schema.String.pipe(Schema.pattern('' @ colonPattern @ '')))'' @ a)
         else if t = ''object'' then ''Schema.Record(Schema.String, Schema.Unknown)'' @ a
         else if t = ''record'' then
           (case field_reference field of
              Some r \<Rightarrow>
                if field_name field = ''reply_to_message_id'' \<and> ref_table r = ''telegram_message''
                then ''recordId("telegram_message")'' @ a
                else ''recordId("'' @ ref_table r @ ''")'' @ a
            | None \<Rightarrow> ''Schema.String.pipe(Schema.pattern('' @ recordFallbackPattern @ ''))'' @ a)
         else if t = ''references'' then
           (case field_reference field of
              Some r \<Rightarrow> ''Schema.Array(recordId("'' @ ref_table r @ ''"))'' @ a
            | None \<Rightarrow> ''Schema.Array(Schema.String)'' @ a)
         else ''Schema.String'' @ a)\<close>

definition effectType :: "FieldDefinition \<Rightarrow> string" where
  "effectType field =
     (if toLowerCase (field_type field) \<noteq> ''datetime'' \<and> field_optional field
      then ''Schema.optional('' @ mappedType field @ '')''
      else mappedType field)"

text \<open>The value returned for one field by the callback of \<^verbatim>\<open>fields.map\<close>.\<close>

definition fieldDefinition :: "FieldDefinition \<Rightarrow> string" where
  "fieldDefinition field = ''  '' @ field_name field @ '': '' @ effectType field"

subsection \<open>Class emitter\<close>

definition hasIdField :: "FieldDefinition list \<Rightarrow> bool" where
  "hasIdField flds = list_ex (\<lambda>field. field_name field = ''id'') flds"

definition idFieldDefinition :: "string \<Rightarrow> string" where
  \<open>idFieldDefinition name =
     ''  id: recordId("'' @ name @ ''").annotations({\<newline>''
       @ ''    description: "Unique identifier"\<newline>''
       @ ''  })''\<close>

definition fieldDefinitions :: "TableDefinition \<Rightarrow> string list" where
  "fieldDefinitions tbl =
     (let fieldDefinitions0 = [];
          fieldDefinitions1 =
            (if \<not> hasIdField (table_fields tbl)
             then fieldDefinitions0 @ [idFieldDefinition (table_name tbl)]
             else fieldDefinitions0)
      in fieldDefinitions1 @ map fieldDefinition (table_fields tbl))"

definition tableDescription :: "TableDefinition \<Rightarrow> string" where
  "tableDescription tbl =
     (case table_description tbl of
        None \<Rightarrow> []
      | Some d \<Rightarrow>
          if d = [] then []
          else ''\<newline>/**\<newline> * '' @ escapeQuotes d @ ''\<newline> */'')"

text \<open>
  The value returned for one table by the callback of \<^verbatim>\<open>tables.map\<close>. The constant
  \<^verbatim>\<open>needsRecursive\<close> of the source is computed and never read, and has no counterpart here.
\<close>

definition tableClass :: "(string \<Rightarrow> string) \<Rightarrow> TableDefinition \<Rightarrow> string" where
  \<open>tableClass capitalizeUnicode tbl =
     (let className = formatClassName capitalizeUnicode (table_name tbl)
      in tableDescription tbl
         @ ''\<newline>export class '' @ className
         @ '' extends Schema.Class<'' @ className @ ''>("'' @ className @ ''")({\<newline>''
         @ join '',\<newline>'' (fieldDefinitions tbl)
         @ ''\<newline>}) {}\<newline>'')\<close>

text \<open>The constant \<^verbatim>\<open>imports\<close> of the source: the shared preamble.\<close>

definition importsText :: string where
  \<open>importsText =
     ''import { Schema } from "effect";\<newline>''
     @ ''\<newline>''
     @ ''// Type for representing a RecordId in Effect Schema\<newline>''
     @ ''type RecordId<T extends string = string> = string & {\<newline>''
     @ ''  readonly RecordId: unique symbol;\<newline>''
     @ ''  readonly Table: T;\<newline>''
     @ ''};\<newline>''
     @ ''\<newline>''
     @ ''/**\<newline>''
     @ '' * Create a RecordId schema for a specific table\<newline>''
     @ '' */\<newline>''
     @ ''function recordId<T extends string>(tableName: T): Schema.Schema<RecordId<T>> {\<newline>''
     @ ''  return Schema.String.pipe(\<newline>''
     @ ''    Schema.pattern(/^[a-zA-Z0-9_-]+:[a-zA-Z0-9_-]+$/),\<newline>''
     @ ''    Schema.brand(`RecordId<${tableName}>`),\<newline>''
     @ ''  ) as unknown as Schema.Schema<RecordId<T>>;\<newline>''
     @ ''}\<newline>''\<close>

text \<open>The function on an argument of its declared type \<^verbatim>\<open>TableDefinition[]\<close>.\<close>

definition generateEffectSchemas ::
  "(string \<Rightarrow> string) \<Rightarrow> TableDefinition list \<Rightarrow> string" where
  "generateEffectSchemas capitalizeUnicode tables =
     (let tableClasses = join ''\<newline>'' (map (tableClass capitalizeUnicode) tables)
      in importsText @ ''\<newline>'' @ tableClasses)"


section \<open>Calls with missing values\<close>

text \<open>
  At run time the function can be called with a value in which something is missing: the
  list itself can be \<^verbatim>\<open>null\<close> or \<^verbatim>\<open>undefined\<close>, and a table or a field can lack a property,
  which then reads as \<^verbatim>\<open>undefined\<close>. The records below are the tables and fields in which
  every property may be missing (\<^const>\<open>None\<close>); a property that is present has its declared
  type. What the source does with a property that reads as \<^verbatim>\<open>undefined\<close>:

  \<^item> \<^verbatim>\<open>tables.map\<close>, \<^verbatim>\<open>tableName.charAt\<close> (on the name of a table), \<^verbatim>\<open>fields.some\<close> and
    \<^verbatim>\<open>field.type.toLowerCase\<close> call a method on it, which throws a \<^verbatim>\<open>TypeError\<close>;
  \<^item> the description of a table, and the description, default value, optionality flag
    and reference of a field are tested as conditions, and \<^verbatim>\<open>undefined\<close> counts as false;
  \<^item> the name of a field and the table of a reference are compared by \<^verbatim>\<open>===\<close> with
    \<^verbatim>\<open>'id'\<close>, \<^verbatim>\<open>"reply_to_message_id"\<close> and \<^verbatim>\<open>"telegram_message"\<close> and are inserted into template
    literals: \<^verbatim>\<open>undefined\<close> differs from each of these strings and is inserted as the text
    \<^verbatim>\<open>undefined\<close>, so it behaves as the string \<^verbatim>\<open>undefined\<close> does.
\<close>

datatype error = TypeError

record RawReference =
  raw_table :: "string option"

record RawField =
  raw_name :: "string option"
  raw_type :: "string option"
  raw_optional :: "bool option"
  raw_description :: "string option"
  raw_defaultValue :: "string option"
  raw_reference :: "RawReference option"

record RawTable =
  raw_table_name :: "string option"
  raw_table_description :: "string option"
  raw_fields :: "RawField list option"

text \<open>The receiver of a method call.\<close>

definition receiver :: "'a option \<Rightarrow> error + 'a" where
  "receiver v = (case v of None \<Rightarrow> Inl TypeError | Some x \<Rightarrow> Inr x)"

text \<open>A string or \<^verbatim>\<open>undefined\<close>, compared with one of the three strings or inserted into a template.\<close>

definition textOf :: "string option \<Rightarrow> string" where
  "textOf v = (case v of None \<Rightarrow> ''undefined'' | Some s \<Rightarrow> s)"

text \<open>\<^verbatim>\<open>xs.map(f)\<close> with a callback that may throw: the first exception ends the call.\<close>

fun mapE :: "('a \<Rightarrow> error + 'b) \<Rightarrow> 'a list \<Rightarrow> error + 'b list" where
  "mapE f [] = Inr []"
| "mapE f (x # xs) =
     (case f x of
        Inl e \<Rightarrow> Inl e
      | Inr y \<Rightarrow> (case mapE f xs of Inl e \<Rightarrow> Inl e | Inr ys \<Rightarrow> Inr (y # ys)))"

text \<open>
  The values that the callback of \<^verbatim>\<open>fields.map\<close> reads from a field. The type tag is the
  receiver of \<^verbatim>\<open>toLowerCase\<close> in the \<^verbatim>\<open>switch\<close>, for every field.
\<close>

definition typedField :: "RawField \<Rightarrow> string \<Rightarrow> FieldDefinition" where
  "typedField field ty =
     \<lparr>field_name = textOf (raw_name field),
      field_type = ty,
      field_optional = (raw_optional field = Some True),
      field_description = raw_description field,
      field_defaultValue = raw_defaultValue field,
      field_reference =
        map_option (\<lambda>r. \<lparr>ref_table = textOf (raw_table r)\<rparr>) (raw_reference field)\<rparr>"

definition fieldCall :: "RawField \<Rightarrow> error + FieldDefinition" where
  "fieldCall field =
     (case receiver (raw_type field) of
        Inl e \<Rightarrow> Inl e
      | Inr ty \<Rightarrow> Inr (typedField field ty))"

text \<open>
  The callback of \<^verbatim>\<open>tables.map\<close>: the name is the receiver of \<^verbatim>\<open>charAt\<close> in
  \<^verbatim>\<open>formatClassName\<close>, then the field list is the receiver of \<^verbatim>\<open>some\<close>, then the fields are
  mapped.
\<close>

definition tableClassCall :: "(string \<Rightarrow> string) \<Rightarrow> RawTable \<Rightarrow> error + string" where
  "tableClassCall capitalizeUnicode tbl =
     (case receiver (raw_table_name tbl) of
        Inl e \<Rightarrow> Inl e
      | Inr name \<Rightarrow>
          (case receiver (raw_fields tbl) of
             Inl e \<Rightarrow> Inl e
           | Inr flds \<Rightarrow>
               (case mapE fieldCall flds of
                  Inl e \<Rightarrow> Inl e
                | Inr typed \<Rightarrow>
                    Inr (tableClass capitalizeUnicode
                          \<lparr>table_name = name,
                           table_description = raw_table_description tbl,
                           table_fields = typed\<rparr>))))"

definition generateEffectSchemasCall ::
  "(string \<Rightarrow> string) \<Rightarrow> RawTable list option \<Rightarrow> error + string" where
  "generateEffectSchemasCall capitalizeUnicode tables =
     (case receiver tables of
        Inl e \<Rightarrow> Inl e
      | Inr ts \<Rightarrow>
          (case mapE (tableClassCall capitalizeUnicode) ts of
             Inl e \<Rightarrow> Inl e
           | Inr classes \<Rightarrow>
               (let tableClasses = join ''\<newline>'' classes
                in Inr (importsText @ ''\<newline>'' @ tableClasses))))"

text \<open>A table and a field of the declared types, as values in which nothing is missing.\<close>

definition rawField :: "FieldDefinition \<Rightarrow> RawField" where
  "rawField field =
     \<lparr>raw_name = Some (field_name field),
      raw_type = Some (field_type field),
      raw_optional = Some (field_optional field),
      raw_description = field_description field,
      raw_defaultValue = field_defaultValue field,
      raw_reference =
        map_option (\<lambda>r. \<lparr>raw_table = Some (ref_table r)\<rparr>) (field_reference field)\<rparr>"

definition rawTable :: "TableDefinition \<Rightarrow> RawTable" where
  "rawTable tbl =
     \<lparr>raw_table_name = Some (table_name tbl),
      raw_table_description = table_description tbl,
      raw_fields = Some (map rawField (table_fields tbl))\<rparr>"


section \<open>Reading a single-quoted string literal\<close>

text \<open>
  The description of a field is emitted between single quotes, as a string literal of
  the generated TypeScript. The reader below is not code of the repository: it is the
  reading of such a literal that the round trip of a description refers to. A literal
  is a single quote, a body and a closing single quote, which is its last character. In
  the body, a backslash followed by a single quote stands for the quote and a backslash
  followed by a backslash for the backslash. The reader gives no result for a body with
  any other escape sequence, with a line break, with a single quote that is not
  escaped, or without the closing quote.
\<close>

definition isLineBreak :: "char \<Rightarrow> bool" where
  "isLineBreak c = (c = CHR 0x0A \<or> c = CHR 0x0D)"

fun readLiteralBody :: "string \<Rightarrow> string option" where
  "readLiteralBody [] = None"
| "readLiteralBody [c] = (if c = CHR 0x27 then Some [] else None)"
| "readLiteralBody (c # e # cs) =
     (if c = CHR 0x27 then None
      else if c = bs then
        (if e = CHR 0x27 \<or> e = bs then map_option ((#) e) (readLiteralBody cs) else None)
      else if isLineBreak c then None
      else map_option ((#) c) (readLiteralBody (e # cs)))"

definition readLiteral :: "string \<Rightarrow> string option" where
  "readLiteral s =
     (case s of
        [] \<Rightarrow> None
      | c # cs \<Rightarrow> if c = CHR 0x27 then readLiteralBody cs else None)"

text \<open>
  The descriptions in which every backslash stands directly before a single quote, and
  which have no line break.
\<close>

fun escapesOnlyQuotes :: "string \<Rightarrow> bool" where
  "escapesOnlyQuotes [] = True"
| "escapesOnlyQuotes [c] = (c \<noteq> bs \<and> \<not> isLineBreak c)"
| "escapesOnlyQuotes (c # e # cs) =
     (if c = bs then e = CHR 0x27 \<and> escapesOnlyQuotes cs
      else \<not> isLineBreak c \<and> escapesOnlyQuotes (e # cs))"


section \<open>Sample inputs\<close>

text \<open>A field with a name, a type tag and an optionality flag, and nothing else.\<close>

definition sampleField :: "string \<Rightarrow> string \<Rightarrow> bool \<Rightarrow> FieldDefinition" where
  "sampleField n ty opt =
     \<lparr>field_name = n, field_type = ty, field_optional = opt, field_description = None,
      field_defaultValue = None, field_reference = None\<rparr>"

text \<open>The self-referential field of the table \<^verbatim>\<open>telegram_message\<close>.\<close>

definition replyField :: FieldDefinition where
  "replyField =
     (sampleField ''reply_to_message_id'' ''record'' False)
       \<lparr>field_reference := Some \<lparr>ref_table = ''telegram_message''\<rparr>\<rparr>"

text \<open>An optional \<^verbatim>\<open>record\<close> field with a reference.\<close>

definition ownerField :: FieldDefinition where
  "ownerField =
     (sampleField ''owner'' ''record'' True)\<lparr>field_reference := Some \<lparr>ref_table = ''user''\<rparr>\<rparr>"

text \<open>A table without a field named \<^verbatim>\<open>id\<close>, and a table that declares one.\<close>

definition userTable :: TableDefinition where
  "userTable =
     \<lparr>table_name = ''user'', table_description = None,
      table_fields = [sampleField ''username'' ''string'' False, sampleField ''age'' ''int'' True]\<rparr>"

definition accountTable :: TableDefinition where
  "accountTable =
     \<lparr>table_name = ''account'', table_description = None,
      table_fields = [sampleField ''id'' ''string'' False, sampleField ''email'' ''string'' False]\<rparr>"

text \<open>
  A table whose name is the empty string; a table with a name and without a field list;
  a table without a name; a table with a field that has no type tag.
\<close>

definition emptyNameTable :: RawTable where
  "emptyNameTable =
     \<lparr>raw_table_name = Some [], raw_table_description = None, raw_fields = Some []\<rparr>"

definition noFieldsTable :: RawTable where
  "noFieldsTable =
     \<lparr>raw_table_name = Some ''user'', raw_table_description = None, raw_fields = None\<rparr>"

definition noNameTable :: RawTable where
  "noNameTable =
     \<lparr>raw_table_name = None, raw_table_description = None, raw_fields = Some []\<rparr>"

definition untypedFieldTable :: RawTable where
  "untypedFieldTable =
     \<lparr>raw_table_name = Some ''user'', raw_table_description = None,
      raw_fields = Some [(rawField (sampleField ''age'' ''int'' False))\<lparr>raw_type := None\<rparr>]\<rparr>"

text \<open>Fields with default values, and fields whose metadata are empty strings.\<close>

definition createdField :: FieldDefinition where
  "createdField =
     (sampleField ''created'' ''datetime'' False)\<lparr>field_defaultValue := Some ''time::now()''\<rparr>"

definition tokenField :: FieldDefinition where
  "tokenField =
     (sampleField ''token'' ''string'' False)\<lparr>field_defaultValue := Some ''rand::uuid()''\<rparr>"

definition activeField :: FieldDefinition where
  "activeField = (sampleField ''active'' ''bool'' False)\<lparr>field_defaultValue := Some ''true''\<rparr>"

definition stampField :: FieldDefinition where
  "stampField = (sampleField ''stamp'' ''string'' False)\<lparr>field_defaultValue := Some ''now''\<rparr>"

definition nicknameField :: FieldDefinition where
  "nicknameField = (sampleField ''nickname'' ''string'' False)\<lparr>field_defaultValue := Some []\<rparr>"

definition noteField :: FieldDefinition where
  "noteField =
     (sampleField ''note'' ''string'' False)
       \<lparr>field_description := Some [], field_defaultValue := Some []\<rparr>"

text \<open>
  Fields with a description: one with a plain single quote, and one in which the quote
  already has a backslash in front.
\<close>

definition quotedField :: FieldDefinition where
  "quotedField = (sampleField ''bio'' ''string'' False)\<lparr>field_description := Some ''it's''\<rparr>"

definition preEscapedField :: FieldDefinition where
  "preEscapedField =
     (sampleField ''bio'' ''string'' False)
       \<lparr>field_description := Some (''it'' @ [bs] @ sq @ ''s'')\<rparr>"

lemmas case_defs =
  toLowerCase_def toUpperCase_def lowerChar_def upperChar_def upperLetters_def lowerLetters_def

lemmas annotation_defs =
  annotationsStr_def annotations_def descriptionAnnotation_def defaultAnnotation_def


section \<open>Properties of the string operations\<close>

lemma startsWith_iff: "startsWith s p \<longleftrightarrow> (\<exists>r. s = p @ r)"
  by (induction s p rule: startsWith.induct) auto

lemma includes_str_iff: "includes_str s p \<longleftrightarrow> (\<exists>a b. s = a @ p @ b)"
proof (induction s)
  case Nil
  show ?case by auto
next
  case (Cons c cs)
  show ?case
  proof
    assume "includes_str (c # cs) p"
    then consider "startsWith (c # cs) p" | "includes_str cs p" by auto
    then show "\<exists>a b. c # cs = a @ p @ b"
    proof cases
      case 1
      then obtain r where "c # cs = p @ r" by (auto simp: startsWith_iff)
      then have "c # cs = [] @ p @ r" by simp
      then show ?thesis by blast
    next
      case 2
      then obtain a b where "cs = a @ p @ b" using Cons.IH by auto
      then have "c # cs = (c # a) @ p @ b" by simp
      then show ?thesis by blast
    qed
  next
    assume "\<exists>a b. c # cs = a @ p @ b"
    then obtain a b where ab: "c # cs = a @ p @ b" by auto
    show "includes_str (c # cs) p"
    proof (cases a)
      case Nil
      with ab have "startsWith (c # cs) p" by (auto simp: startsWith_iff)
      then show ?thesis by simp
    next
      case (Cons x xs)
      with ab have "cs = xs @ p @ b" by simp
      then have "includes_str cs p" using Cons.IH by blast
      then show ?thesis by simp
    qed
  qed
qed

lemma join_snoc: "join sep (xs @ [x]) = (if xs = [] then x else join sep xs @ sep @ x)"
  by (induction sep xs rule: join.induct) auto


lemma unescapeQuotes_Cons:
  "c \<noteq> bs \<or> \<not> startsWith t sq \<Longrightarrow> unescapeQuotes (c # t) = c # unescapeQuotes t"
  by (cases t) auto

lemma escapeQuotes_no_leading_quote: "\<not> startsWith (escapeQuotes s) sq"
  by (cases s) auto

lemma unescape_escape: "unescapeQuotes (escapeQuotes s) = s"
  by (induction s) (simp_all add: unescapeQuotes_Cons escapeQuotes_no_leading_quote)

lemma unescapeQuotes_id:
  "\<not> includes_str d [bs, CHR 0x27] \<Longrightarrow> unescapeQuotes d = d"
  by (induction d rule: unescapeQuotes.induct) auto

lemma length_unescapeQuotes: "length (unescapeQuotes d) \<le> length d"
  by (induction d rule: unescapeQuotes.induct) auto

lemma unescapeQuotes_shorter:
  "includes_str d [bs, CHR 0x27] \<Longrightarrow> length (unescapeQuotes d) < length d"
proof (induction d rule: unescapeQuotes.induct)
  case 1
  then show ?case by simp
next
  case (2 c)
  then show ?case by simp
next
  case (3 c e cs)
  show ?case
  proof (cases "c = bs \<and> e = CHR 0x27")
    case True
    have "length (unescapeQuotes cs) \<le> length cs" by (rule length_unescapeQuotes)
    with True show ?thesis by simp
  next
    case False
    with "3.prems" have "includes_str (e # cs) [bs, CHR 0x27]" by auto
    with "3.IH"(2) False have "length (unescapeQuotes (e # cs)) < length (e # cs)" by blast
    with False show ?thesis by auto
  qed
qed

lemma unescapeQuotes_fixed_iff:
  "unescapeQuotes d = d \<longleftrightarrow> \<not> includes_str d [bs, CHR 0x27]"
  using unescapeQuotes_id[of d] unescapeQuotes_shorter[of d] by auto

text \<open>
  The matcher \<^const>\<open>numericPattern\<close> accepts the language of the regular expression: a
  string is accepted exactly when it is an optional minus sign, a non-empty run of digits
  and, optionally, a dot with a non-empty run of digits.
\<close>

lemma numericPattern_iff:
  "numericPattern s \<longleftrightarrow>
     (\<exists>sign ds frac.
        s = sign @ ds @ frac \<and> (sign = [] \<or> sign = ''-'') \<and>
        ds \<noteq> [] \<and> list_all isDigit ds \<and>
        (frac = [] \<or> (\<exists>fs. frac = ''.'' @ fs \<and> fs \<noteq> [] \<and> list_all isDigit fs)))"
  (is "?L \<longleftrightarrow> ?R")
proof
  assume L: ?L
  define s1 where "s1 = optMinus s"
  define ds where "ds = takeWhile isDigit s1"
  define r where "r = dropWhile isDigit s1"
  have s1: "s1 = ds @ r" by (simp add: ds_def r_def)
  have sign: "\<exists>sign. s = sign @ s1 \<and> (sign = [] \<or> sign = ''-'')"
    by (cases s) (auto simp: s1_def optMinus_def)
  from L have ne: "ds \<noteq> []"
    and rr: "r = [] \<or> (\<exists>fs. r = ''.'' @ fs \<and> fs \<noteq> [] \<and> list_all isDigit fs)"
    by (auto simp: numericPattern_def Let_def s1_def ds_def r_def split: list.splits)
  have dig: "list_all isDigit ds"
    unfolding ds_def list_all_iff using set_takeWhileD by fastforce
  from sign s1 ne rr dig show ?R by blast
next
  assume ?R
  then obtain sign ds frac where s: "s = sign @ ds @ frac"
    and sg: "sign = [] \<or> sign = ''-''"
    and ne: "ds \<noteq> []" and dig: "list_all isDigit ds"
    and fr: "frac = [] \<or> (\<exists>fs. frac = ''.'' @ fs \<and> fs \<noteq> [] \<and> list_all isDigit fs)"
    by blast
  from ne dig have hd: "isDigit (hd ds)" by (cases ds) auto
  then have nm: "hd ds \<noteq> CHR ''-''" by (auto simp: isDigit_def)
  have nd: "\<not> isDigit CHR ''.''" by (simp add: isDigit_def)
  have om: "optMinus s = ds @ frac"
    using sg ne nm s by (cases ds) (auto simp: optMinus_def)
  have tw: "takeWhile isDigit (ds @ frac) = ds"
    using dig fr nd by (auto simp: list_all_iff)
  have dw: "dropWhile isDigit (ds @ frac) = frac"
    using dig fr nd by (auto simp: list_all_iff)
  show ?L
    using fr ne by (auto simp: numericPattern_def Let_def om tw dw)
qed


section \<open>Properties of the reader of literals\<close>

lemma unescapeQuotes_plain:
  "escapesOnlyQuotes d \<Longrightarrow>
     bs \<notin> set (unescapeQuotes d) \<and> (\<forall>c \<in> set (unescapeQuotes d). \<not> isLineBreak c)"
proof (induction d rule: unescapeQuotes.induct)
  case 1
  show ?case by simp
next
  case (2 c)
  then show ?case by auto
next
  case (3 c e cs)
  show ?case
  proof (cases "c = bs \<and> e = CHR 0x27")
    case True
    with "3.prems" have "escapesOnlyQuotes cs" by simp
    with "3.IH"(1) True
    have "bs \<notin> set (unescapeQuotes cs) \<and> (\<forall>c \<in> set (unescapeQuotes cs). \<not> isLineBreak c)"
      by blast
    with True show ?thesis by (simp add: isLineBreak_def)
  next
    case False
    with "3.prems" have c: "c \<noteq> bs" "\<not> isLineBreak c" and r: "escapesOnlyQuotes (e # cs)"
      by (auto split: if_splits)
    from "3.IH"(2) False r
    have "bs \<notin> set (unescapeQuotes (e # cs)) \<and>
        (\<forall>c \<in> set (unescapeQuotes (e # cs)). \<not> isLineBreak c)"
      by blast
    with False c show ?thesis by auto
  qed
qed

lemma readLiteralBody_Cons:
  "c \<noteq> CHR 0x27 \<Longrightarrow> c \<noteq> bs \<Longrightarrow> \<not> isLineBreak c \<Longrightarrow> r \<noteq> [] \<Longrightarrow>
     readLiteralBody (c # r) = map_option ((#) c) (readLiteralBody r)"
  by (cases r) simp_all

lemma readLiteralBody_escapeQuotes:
  "bs \<notin> set u \<Longrightarrow> (\<forall>c \<in> set u. \<not> isLineBreak c) \<Longrightarrow>
     readLiteralBody (escapeQuotes u @ sq) = Some u"
proof (induction u)
  case Nil
  show ?case by simp
next
  case (Cons c cs)
  then have ih: "readLiteralBody (escapeQuotes cs @ sq) = Some cs" by simp
  show ?case
  proof (cases "c = CHR 0x27")
    case True
    with ih show ?thesis by simp
  next
    case False
    from Cons.prems have "c \<noteq> bs" "\<not> isLineBreak c" by auto
    with False ih show ?thesis by (simp add: readLiteralBody_Cons)
  qed
qed

lemma unescapeQuotes_no_backslash: "bs \<notin> set d \<Longrightarrow> unescapeQuotes d = d"
  by (induction d rule: unescapeQuotes.induct) auto

lemma escapesOnlyQuotes_backslash:
  "escapesOnlyQuotes d \<Longrightarrow> bs \<in> set d \<Longrightarrow> includes_str d [bs, CHR 0x27]"
  by (induction d rule: escapesOnlyQuotes.induct) (auto split: if_splits)


section \<open>Properties of calls with missing values\<close>

lemma mapE_Inr_iff:
  "(\<exists>ys. mapE f xs = Inr ys) \<longleftrightarrow> (\<forall>x \<in> set xs. \<exists>y. f x = Inr y)"
  by (induction xs) (auto split: sum.splits)

lemma mapE_Inl_iff:
  "(\<exists>e. mapE f xs = Inl e) \<longleftrightarrow> (\<exists>x \<in> set xs. \<exists>e. f x = Inl e)"
  by (induction xs) (auto split: sum.splits)

lemma mapE_total: "mapE (\<lambda>x. Inr (g x)) xs = Inr (map g xs)"
  by (induction xs) auto

lemma fieldCall_rawField: "fieldCall (rawField field) = Inr field"
  by (cases "field_reference field")
    (simp_all add: fieldCall_def receiver_def rawField_def typedField_def textOf_def)

lemma mapE_fieldCall_rawField: "mapE fieldCall (map rawField flds) = Inr flds"
  by (induction flds) (simp_all add: fieldCall_rawField)

lemma tableClassCall_rawTable:
  "tableClassCall uc (rawTable tbl) = Inr (tableClass uc tbl)"
  by (cases tbl) (simp add: tableClassCall_def receiver_def rawTable_def mapE_fieldCall_rawField)

lemma mapE_tableClassCall_rawTable:
  "mapE (tableClassCall uc) (map rawTable ts) = Inr (map (tableClass uc) ts)"
  by (induction ts) (simp_all add: tableClassCall_rawTable)

lemma generateEffectSchemasCall_typed:
  "generateEffectSchemasCall uc (Some (map rawTable ts)) = Inr (generateEffectSchemas uc ts)"
  by (simp add: generateEffectSchemasCall_def generateEffectSchemas_def receiver_def
      mapE_tableClassCall_rawTable)

lemma fieldCall_Inl_iff: "(\<exists>e. fieldCall field = Inl e) \<longleftrightarrow> raw_type field = None"
  by (cases "raw_type field") (simp_all add: fieldCall_def receiver_def)

lemma tableClassCall_Inl_iff:
  "(\<exists>e. tableClassCall uc tbl = Inl e) \<longleftrightarrow>
     (raw_table_name tbl = None \<or> raw_fields tbl = None \<or>
      (\<exists>flds. raw_fields tbl = Some flds \<and> (\<exists>field \<in> set flds. raw_type field = None)))"
proof (cases "raw_table_name tbl")
  case None
  then show ?thesis by (simp add: tableClassCall_def receiver_def)
next
  case (Some name)
  show ?thesis
  proof (cases "raw_fields tbl")
    case None
    with Some show ?thesis by (simp add: tableClassCall_def receiver_def)
  next
    case (Some flds)
    have "(\<exists>e. tableClassCall uc tbl = Inl e) \<longleftrightarrow> (\<exists>e. mapE fieldCall flds = Inl e)"
      using Some \<open>raw_table_name tbl = Some name\<close>
      by (cases "mapE fieldCall flds") (simp_all add: tableClassCall_def receiver_def)
    also have "\<dots> \<longleftrightarrow> (\<exists>field \<in> set flds. raw_type field = None)"
      by (simp add: mapE_Inl_iff fieldCall_Inl_iff)
    finally show ?thesis
      using Some \<open>raw_table_name tbl = Some name\<close> by simp
  qed
qed


section \<open>The field type mapper\<close>

lemma mappedType_not_optional: "\<not> startsWith (mappedType field) ''Schema.optional(''"
  by (simp add: mappedType_def Let_def split: option.split)

text \<open>
  Claim C9, as amended. For a field whose lower-cased type tag is \<^verbatim>\<open>record\<close> and whose
  reference is present, the type expression before optional wrapping is
  \<^verbatim>\<open>recordId("<table>")\<close> for the table of the reference, followed by the annotation clause.
  The emitted type expression is this text for a field that is not optional, and this
  text wrapped in \<^verbatim>\<open>Schema.optional( )\<close> for an optional field. The statement does not
  mention the name of the field: the branch for the field \<^verbatim>\<open>reply_to_message_id\<close> that
  refers to \<^verbatim>\<open>telegram_message\<close> gives the same text as the general branch.
\<close>

theorem record_reference_mapping:
  assumes "toLowerCase (field_type field) = ''record''"
    and "field_reference field = Some r"
  shows
  \<open>mappedType field = ''recordId("'' @ ref_table r @ ''")'' @ annotationsStr field \<and>
   effectType field =
     (if field_optional field
      then ''Schema.optional('' @ ''recordId("'' @ ref_table r @ ''")'' @ annotationsStr field
             @ '')''
      else ''recordId("'' @ ref_table r @ ''")'' @ annotationsStr field)\<close>
proof -
  have m: \<open>mappedType field = ''recordId("'' @ ref_table r @ ''")'' @ annotationsStr field\<close>
    using assms by (simp add: mappedType_def Let_def)
  show ?thesis
    using assms(1) by (simp add: effectType_def m)
qed

text \<open>
  The self-referential field, which is not optional, resolves to the identifier type of
  \<^verbatim>\<open>telegram_message\<close>; the optional field \<^verbatim>\<open>owner\<close> resolves to the wrapped identifier type
  of \<^verbatim>\<open>user\<close>.
\<close>

theorem record_reference_mapping_witness:
  \<open>toLowerCase (field_type replyField) = ''record'' \<and>
   field_reference replyField = Some \<lparr>ref_table = ''telegram_message''\<rparr> \<and>
   mappedType replyField = ''recordId("telegram_message")'' \<and>
   effectType replyField = ''recordId("telegram_message")'' \<and>
   toLowerCase (field_type ownerField) = ''record'' \<and>
   field_reference ownerField = Some \<lparr>ref_table = ''user''\<rparr> \<and>
   mappedType ownerField = ''recordId("user")'' \<and>
   effectType ownerField = ''Schema.optional(recordId("user"))''\<close>
proof -
  have h1: "toLowerCase (field_type replyField) = ''record''"
    by (simp add: replyField_def sampleField_def case_defs)
  have h2: "field_reference replyField = Some \<lparr>ref_table = ''telegram_message''\<rparr>"
    by (simp add: replyField_def)
  have a: "annotationsStr replyField = []"
    by (simp add: replyField_def sampleField_def annotation_defs)
  have o: "\<not> field_optional replyField"
    by (simp add: replyField_def sampleField_def)
  have g1: "toLowerCase (field_type ownerField) = ''record''"
    by (simp add: ownerField_def sampleField_def case_defs)
  have g2: "field_reference ownerField = Some \<lparr>ref_table = ''user''\<rparr>"
    by (simp add: ownerField_def)
  have b: "annotationsStr ownerField = []"
    by (simp add: ownerField_def sampleField_def annotation_defs)
  have p: "field_optional ownerField"
    by (simp add: ownerField_def sampleField_def)
  show ?thesis
    using h1 h2 g1 g2 record_reference_mapping [OF h1 h2] record_reference_mapping [OF g1 g2]
    by (simp add: a b o p)
qed

text \<open>
  The claim as it is written gives the emitted type expression of every such field as
  \<^verbatim>\<open>recordId\<close> of the table followed by the annotation clause. For the optional field
  \<^verbatim>\<open>owner\<close> the emitted expression is that text inside \<^verbatim>\<open>Schema.optional( )\<close>.
\<close>

theorem record_reference_emitted_counterexample:
  \<open>toLowerCase (field_type ownerField) = ''record'' \<and>
   field_reference ownerField = Some \<lparr>ref_table = ''user''\<rparr> \<and>
   annotationsStr ownerField = [] \<and>
   effectType ownerField = ''Schema.optional(recordId("user"))'' \<and>
   effectType ownerField \<noteq> ''recordId("user")'' @ annotationsStr ownerField \<and>
   fieldDefinition ownerField = ''  owner: Schema.optional(recordId("user"))''\<close>
proof -
  have g1: "toLowerCase (field_type ownerField) = ''record''"
    by (simp add: ownerField_def sampleField_def case_defs)
  have g2: "field_reference ownerField = Some \<lparr>ref_table = ''user''\<rparr>"
    by (simp add: ownerField_def)
  have b: "annotationsStr ownerField = []"
    by (simp add: ownerField_def sampleField_def annotation_defs)
  have m: \<open>mappedType ownerField = ''recordId("user")''\<close>
    by (simp add: mappedType_def Let_def g1 g2 b)
  have p: "field_optional ownerField" "field_name ownerField = ''owner''"
    by (simp_all add: ownerField_def sampleField_def)
  have e: "effectType ownerField = ''Schema.optional(recordId(\"user\"))''"
    by (simp add: effectType_def g1 m p)
  show ?thesis
    using g1 g2 b e by (simp add: fieldDefinition_def p)
qed

text \<open>
  Claim C2. A field with \<^verbatim>\<open>optional\<close> true whose lower-cased type tag is not \<^verbatim>\<open>datetime\<close> has
  its mapped type expression wrapped in \<^verbatim>\<open>Schema.optional( )\<close>; a field with \<^verbatim>\<open>optional\<close>
  true and type tag \<^verbatim>\<open>datetime\<close> keeps the unwrapped date expression; a field with
  \<^verbatim>\<open>optional\<close> false keeps its mapped type expression. The emitted expression starts with
  \<^verbatim>\<open>Schema.optional(\<close> in the first case and in no other.
\<close>

theorem optional_wrapping:
  "(field_optional field \<and> toLowerCase (field_type field) \<noteq> ''datetime'' \<longrightarrow>
      effectType field = ''Schema.optional('' @ mappedType field @ '')'') \<and>
   (field_optional field \<and> toLowerCase (field_type field) = ''datetime'' \<longrightarrow>
      effectType field = ''Schema.Date'' @ annotationsStr field) \<and>
   (\<not> field_optional field \<longrightarrow> effectType field = mappedType field) \<and>
   (startsWith (effectType field) ''Schema.optional('' \<longleftrightarrow>
      field_optional field \<and> toLowerCase (field_type field) \<noteq> ''datetime'')"
proof -
  have dt: "toLowerCase (field_type field) = ''datetime'' \<Longrightarrow>
      mappedType field = ''Schema.Date'' @ annotationsStr field"
    by (simp add: mappedType_def Let_def)
  have nw: "\<not> startsWith (mappedType field) ''Schema.optional(''"
    by (rule mappedType_not_optional)
  show ?thesis
    using dt nw by (auto simp: effectType_def)
qed

text \<open>
  An optional \<^verbatim>\<open>int\<close> field is wrapped, an optional \<^verbatim>\<open>datetime\<close> field (its tag in upper
  case) is not, and neither is an \<^verbatim>\<open>int\<close> field that is not optional.
\<close>

theorem optional_wrapping_witness:
  "field_optional (sampleField ''age'' ''int'' True) \<and>
   toLowerCase (field_type (sampleField ''age'' ''int'' True)) \<noteq> ''datetime'' \<and>
   effectType (sampleField ''age'' ''int'' True)
     = ''Schema.optional(Schema.Number.pipe(Schema.int()))'' \<and>
   field_optional (sampleField ''seen'' ''DATETIME'' True) \<and>
   toLowerCase (field_type (sampleField ''seen'' ''DATETIME'' True)) = ''datetime'' \<and>
   effectType (sampleField ''seen'' ''DATETIME'' True) = ''Schema.Date'' \<and>
   \<not> field_optional (sampleField ''age'' ''int'' False) \<and>
   effectType (sampleField ''age'' ''int'' False) = ''Schema.Number.pipe(Schema.int())''"
proof -
  have a: "annotationsStr (sampleField n ty opt) = []" for n ty opt
    by (simp add: sampleField_def annotation_defs)
  have m: "mappedType (sampleField n ''int'' opt) = ''Schema.Number.pipe(Schema.int())''"
    for n opt
    by (simp add: mappedType_def Let_def a) (simp add: sampleField_def case_defs)
  have l: "toLowerCase (field_type (sampleField ''seen'' ''DATETIME'' True)) = ''datetime''"
    by (simp add: sampleField_def case_defs)
  have l': "toLowerCase (field_type (sampleField ''age'' ''int'' True)) \<noteq> ''datetime''"
    by (simp add: sampleField_def case_defs)
  have o: "field_optional (sampleField n ty opt) = opt" for n ty opt
    by (simp add: sampleField_def)
  show ?thesis
    using optional_wrapping [of "sampleField ''age'' ''int'' True"]
      optional_wrapping [of "sampleField ''seen'' ''DATETIME'' True"]
      optional_wrapping [of "sampleField ''age'' ''int'' False"]
    by (simp add: a m l l' o)
qed

text \<open>
  Claim C4. The mapper has a result for every field: reading a field of the declared
  type throws nothing, whatever its type tag, and the call of the generator on tables of
  the declared type returns their document. A type tag that, in lower case, is none of
  the eleven tags of the \<^verbatim>\<open>switch\<close> maps to \<^verbatim>\<open>Schema.String\<close>. A \<^verbatim>\<open>record\<close> field without reference maps to a string constrained
  by the pattern with the angle brackets, and an \<^verbatim>\<open>array_record\<close> field without
  reference maps to an array of strings constrained by the colon pattern, which is a
  different pattern. A \<^verbatim>\<open>references\<close> field without reference maps to an array of plain
  strings.
\<close>

theorem type_mapper_fallbacks:
  "(toLowerCase (field_type field) \<notin>
      {''int'', ''number'', ''float'', ''bool'', ''datetime'', ''array'', ''array_float'',
       ''array_record'', ''object'', ''record'', ''references''} \<longrightarrow>
      mappedType field = ''Schema.String'' @ annotationsStr field) \<and>
   (toLowerCase (field_type field) = ''record'' \<and> field_reference field = None \<longrightarrow>
      mappedType field =
        ''Schema.String.pipe(Schema.pattern(''
          @ (''/^[a-zA-Z0-9_-]+:'' @ [CHR 0xE2, CHR 0x9F, CHR 0xA8, CHR 0x5C] @ ''d+''
               @ [CHR 0xE2, CHR 0x9F, CHR 0xA9] @ ''$/'')
          @ ''))'' @ annotationsStr field) \<and>
   (toLowerCase (field_type field) = ''array_record'' \<and> field_reference field = None \<longrightarrow>
      mappedType field =
        ''Schema.Array(Schema.String.pipe(Schema.pattern(''
          @ ''/^[a-zA-Z0-9_-]+:[a-zA-Z0-9_-]+$/''
          @ '')))'' @ annotationsStr field) \<and>
   ''/^[a-zA-Z0-9_-]+:'' @ [CHR 0xE2, CHR 0x9F, CHR 0xA8, CHR 0x5C] @ ''d+''
       @ [CHR 0xE2, CHR 0x9F, CHR 0xA9] @ ''$/''
     \<noteq> ''/^[a-zA-Z0-9_-]+:[a-zA-Z0-9_-]+$/'' \<and>
   (toLowerCase (field_type field) = ''references'' \<and> field_reference field = None \<longrightarrow>
      mappedType field = ''Schema.Array(Schema.String)'' @ annotationsStr field) \<and>
   fieldCall (rawField field) = Inr field \<and>
   generateEffectSchemasCall capitalizeUnicode (Some (map rawTable ts))
     = Inr (generateEffectSchemas capitalizeUnicode ts)"
proof -
  have a: "toLowerCase (field_type field) \<notin>
      {''int'', ''number'', ''float'', ''bool'', ''datetime'', ''array'', ''array_float'',
       ''array_record'', ''object'', ''record'', ''references''} \<Longrightarrow>
      mappedType field = ''Schema.String'' @ annotationsStr field"
    by (simp add: mappedType_def Let_def)
  have b: "toLowerCase (field_type field) = ''record'' \<Longrightarrow> field_reference field = None \<Longrightarrow>
      mappedType field =
        ''Schema.String.pipe(Schema.pattern(''
          @ (''/^[a-zA-Z0-9_-]+:'' @ [CHR 0xE2, CHR 0x9F, CHR 0xA8, CHR 0x5C] @ ''d+''
               @ [CHR 0xE2, CHR 0x9F, CHR 0xA9] @ ''$/'')
          @ ''))'' @ annotationsStr field"
    by (simp add: mappedType_def Let_def recordFallbackPattern_def)
  have c: "toLowerCase (field_type field) = ''array_record'' \<Longrightarrow>
      field_reference field = None \<Longrightarrow>
      mappedType field =
        ''Schema.Array(Schema.String.pipe(Schema.pattern(''
          @ ''/^[a-zA-Z0-9_-]+:[a-zA-Z0-9_-]+$/''
          @ '')))'' @ annotationsStr field"
    by (simp add: mappedType_def Let_def colonPattern_def)
  have d: "''/^[a-zA-Z0-9_-]+:'' @ [CHR 0xE2, CHR 0x9F, CHR 0xA8, CHR 0x5C] @ ''d+''
       @ [CHR 0xE2, CHR 0x9F, CHR 0xA9] @ ''$/''
     \<noteq> ''/^[a-zA-Z0-9_-]+:[a-zA-Z0-9_-]+$/''"
    by simp
  have e: "toLowerCase (field_type field) = ''references'' \<Longrightarrow> field_reference field = None \<Longrightarrow>
      mappedType field = ''Schema.Array(Schema.String)'' @ annotationsStr field"
    by (simp add: mappedType_def Let_def)
  have f: "fieldCall (rawField field) = Inr field"
    by (rule fieldCall_rawField)
  have g: "generateEffectSchemasCall capitalizeUnicode (Some (map rawTable ts))
     = Inr (generateEffectSchemas capitalizeUnicode ts)"
    by (rule generateEffectSchemasCall_typed)
  show ?thesis using a b c d e f g by blast
qed

text \<open>
  Fields of the unknown type \<^verbatim>\<open>geometry\<close> and of the types \<^verbatim>\<open>record\<close>, \<^verbatim>\<open>array_record\<close> and
  \<^verbatim>\<open>references\<close>, all without reference.
\<close>

theorem type_mapper_fallbacks_witness:
  "toLowerCase (field_type (sampleField ''shape'' ''geometry'' False)) = ''geometry'' \<and>
   mappedType (sampleField ''shape'' ''geometry'' False) = ''Schema.String'' \<and>
   fieldCall (rawField (sampleField ''shape'' ''geometry'' False))
     = Inr (sampleField ''shape'' ''geometry'' False) \<and>
   toLowerCase (field_type (sampleField ''owner'' ''Record'' False)) = ''record'' \<and>
   field_reference (sampleField ''owner'' ''Record'' False) = None \<and>
   mappedType (sampleField ''owner'' ''Record'' False)
     = ''Schema.String.pipe(Schema.pattern('' @ recordFallbackPattern @ ''))'' \<and>
   toLowerCase (field_type (sampleField ''members'' ''array_record'' False)) = ''array_record'' \<and>
   mappedType (sampleField ''members'' ''array_record'' False)
     = ''Schema.Array(Schema.String.pipe(Schema.pattern('' @ colonPattern @ '')))'' \<and>
   toLowerCase (field_type (sampleField ''tags'' ''references'' False)) = ''references'' \<and>
   mappedType (sampleField ''tags'' ''references'' False) = ''Schema.Array(Schema.String)''"
proof -
  have a: "annotationsStr (sampleField n ty opt) = []" for n ty opt
    by (simp add: sampleField_def annotation_defs)
  have r: "field_reference (sampleField n ty opt) = None" for n ty opt
    by (simp add: sampleField_def)
  have l1: "toLowerCase (field_type (sampleField ''shape'' ''geometry'' False)) = ''geometry''"
    by (simp add: sampleField_def case_defs)
  have l2: "toLowerCase (field_type (sampleField ''owner'' ''Record'' False)) = ''record''"
    by (simp add: sampleField_def case_defs)
  have l3: "toLowerCase (field_type (sampleField ''members'' ''array_record'' False))
      = ''array_record''"
    by (simp add: sampleField_def case_defs)
  have l4: "toLowerCase (field_type (sampleField ''tags'' ''references'' False)) = ''references''"
    by (simp add: sampleField_def case_defs)
  show ?thesis
    using type_mapper_fallbacks [where field = "sampleField ''shape'' ''geometry'' False"]
      type_mapper_fallbacks [where field = "sampleField ''owner'' ''Record'' False"]
      type_mapper_fallbacks [where field = "sampleField ''members'' ''array_record'' False"]
      type_mapper_fallbacks [where field = "sampleField ''tags'' ''references'' False"]
    by (simp add: a r l1 l2 l3 l4 recordFallbackPattern_def colonPattern_def)
qed


section \<open>The annotation composer\<close>

text \<open>
  Claim C10. A field whose description is the empty string gets no description entry,
  and a field whose default value is the empty string gets no default entry: in both
  cases the generated field line is the one of the same field without that property.
  A field whose description and default value are each missing or empty has the empty
  annotation clause.
\<close>

theorem empty_metadata_ignored:
  "(field_description field = Some [] \<longrightarrow>
      descriptionAnnotation field = [] \<and>
      fieldDefinition field = fieldDefinition (field\<lparr>field_description := None\<rparr>)) \<and>
   (field_defaultValue field = Some [] \<longrightarrow>
      defaultAnnotation field = [] \<and>
      fieldDefinition field = fieldDefinition (field\<lparr>field_defaultValue := None\<rparr>)) \<and>
   ((field_description field = None \<or> field_description field = Some []) \<and>
    (field_defaultValue field = None \<or> field_defaultValue field = Some []) \<longrightarrow>
      annotationsStr field = [])"
proof -
  have fd: "fieldDefinition g = fieldDefinition field"
    if "annotationsStr g = annotationsStr field" "field_name g = field_name field"
      "field_type g = field_type field" "field_optional g = field_optional field"
      "field_reference g = field_reference field" for g
    using that by (simp add: fieldDefinition_def effectType_def mappedType_def Let_def
        split: option.split)
  have a1: "field_description field = Some [] \<Longrightarrow>
      descriptionAnnotation (field\<lparr>field_description := None\<rparr>) = descriptionAnnotation field"
    by (simp add: descriptionAnnotation_def)
  have a2: "defaultAnnotation (field\<lparr>field_description := None\<rparr>) = defaultAnnotation field"
    by (simp add: defaultAnnotation_def split: option.split)
  have a: "field_description field = Some [] \<Longrightarrow>
      annotationsStr (field\<lparr>field_description := None\<rparr>) = annotationsStr field"
    by (simp add: annotationsStr_def annotations_def a1 a2)
  have b1: "field_defaultValue field = Some [] \<Longrightarrow>
      defaultAnnotation (field\<lparr>field_defaultValue := None\<rparr>) = defaultAnnotation field"
    by (simp add: defaultAnnotation_def)
  have b2: "descriptionAnnotation (field\<lparr>field_defaultValue := None\<rparr>) = descriptionAnnotation field"
    by (simp add: descriptionAnnotation_def split: option.split)
  have b: "field_defaultValue field = Some [] \<Longrightarrow>
      annotationsStr (field\<lparr>field_defaultValue := None\<rparr>) = annotationsStr field"
    by (simp add: annotationsStr_def annotations_def b1 b2)
  have c: "field_description field = Some [] \<Longrightarrow> descriptionAnnotation field = []"
    by (simp add: descriptionAnnotation_def)
  have d: "field_defaultValue field = Some [] \<Longrightarrow> defaultAnnotation field = []"
    by (simp add: defaultAnnotation_def)
  have e: "(field_description field = None \<or> field_description field = Some []) \<Longrightarrow>
    (field_defaultValue field = None \<or> field_defaultValue field = Some []) \<Longrightarrow>
      annotationsStr field = []"
    by (auto simp: annotation_defs)
  show ?thesis
    using fd [OF a] fd [OF b] c d e by simp
qed

text \<open>A field whose description and default value are both the empty string.\<close>

theorem empty_metadata_ignored_witness:
  "field_description noteField = Some [] \<and>
   field_defaultValue noteField = Some [] \<and>
   descriptionAnnotation noteField = [] \<and>
   defaultAnnotation noteField = [] \<and>
   annotationsStr noteField = [] \<and>
   fieldDefinition noteField = fieldDefinition (noteField\<lparr>field_description := None\<rparr>) \<and>
   fieldDefinition noteField = fieldDefinition (noteField\<lparr>field_defaultValue := None\<rparr>)"
proof -
  have h1: "field_description noteField = Some []"
    by (simp add: noteField_def)
  have h2: "field_defaultValue noteField = Some []"
    by (simp add: noteField_def)
  show ?thesis
    using h1 h2 empty_metadata_ignored [of noteField] by blast
qed

text \<open>
  Claim C3, as amended. For a field whose default value is present and is not the empty
  string: when the value contains \<^verbatim>\<open>::\<close> and the lower-cased type tag is \<^verbatim>\<open>datetime\<close>, the
  only entry made for it is \<^verbatim>\<open>surrealDefault:\<close> with the value in single quotes; when the
  value contains \<^verbatim>\<open>::\<close> and the type is another one, the entry is \<^verbatim>\<open>default:\<close> with the value
  in single quotes; when the value does not contain \<^verbatim>\<open>::\<close>, the entry is \<^verbatim>\<open>default:\<close> with
  the value as it is if it starts with a single or double quote, is \<^verbatim>\<open>true\<close> or \<^verbatim>\<open>false\<close>,
  matches the numeric pattern, or starts with \<^verbatim>\<open>[\<close> or \<^verbatim>\<open>{\<close>, and with the value in single
  quotes otherwise. The annotation clause is the list of the description entry, if any,
  and this entry, joined and wrapped.
\<close>

theorem default_formatting:
  assumes "field_defaultValue field = Some v" and "v \<noteq> []"
  shows
  \<open>(includes_str v ''::'' \<and> toLowerCase (field_type field) = ''datetime'' \<longrightarrow>
      defaultAnnotation field = [''surrealDefault: '' @ sq @ v @ sq]) \<and>
   (includes_str v ''::'' \<and> toLowerCase (field_type field) \<noteq> ''datetime'' \<longrightarrow>
      defaultAnnotation field = [''default: '' @ sq @ v @ sq]) \<and>
   (\<not> includes_str v ''::'' \<and>
    (startsWith v sq \<or> startsWith v ''"'' \<or> v = ''true'' \<or> v = ''false'' \<or>
     numericPattern v \<or> startsWith v ''['' \<or> startsWith v ''{'') \<longrightarrow>
      defaultAnnotation field = [''default: '' @ v]) \<and>
   (\<not> includes_str v ''::'' \<and>
    \<not> (startsWith v sq \<or> startsWith v ''"'' \<or> v = ''true'' \<or> v = ''false'' \<or>
     numericPattern v \<or> startsWith v ''['' \<or> startsWith v ''{'') \<longrightarrow>
      defaultAnnotation field = [''default: '' @ sq @ v @ sq]) \<and>
   annotationsStr field =
     ''.annotations({ '' @ join '', '' (descriptionAnnotation field @ defaultAnnotation field)
       @ '' })''\<close>
proof -
  have nq: \<open>needsQuotes v \<longleftrightarrow>
      \<not> (startsWith v sq \<or> startsWith v ''"'' \<or> v = ''true'' \<or> v = ''false'' \<or>
         numericPattern v \<or> startsWith v ''['' \<or> startsWith v ''{'')\<close>
    unfolding needsQuotes_def by blast
  have ne: "defaultAnnotation field \<noteq> []"
    using assms by (simp add: defaultAnnotation_def)
  have a: "includes_str v ''::'' \<Longrightarrow> toLowerCase (field_type field) = ''datetime'' \<Longrightarrow>
      defaultAnnotation field = [''surrealDefault: '' @ sq @ v @ sq]"
    using assms by (simp add: defaultAnnotation_def)
  have b: "includes_str v ''::'' \<Longrightarrow> toLowerCase (field_type field) \<noteq> ''datetime'' \<Longrightarrow>
      defaultAnnotation field = [''default: '' @ sq @ v @ sq]"
    using assms by (simp add: defaultAnnotation_def)
  have c: "\<not> includes_str v ''::'' \<Longrightarrow> \<not> needsQuotes v \<Longrightarrow>
      defaultAnnotation field = [''default: '' @ v]"
    using assms by (simp add: defaultAnnotation_def)
  have d: "\<not> includes_str v ''::'' \<Longrightarrow> needsQuotes v \<Longrightarrow>
      defaultAnnotation field = [''default: '' @ sq @ v @ sq]"
    using assms by (simp add: defaultAnnotation_def)
  have e: "annotationsStr field =
     ''.annotations({ '' @ join '', '' (descriptionAnnotation field @ defaultAnnotation field)
       @ '' })''"
    using ne by (simp add: annotationsStr_def annotations_def)
  show ?thesis
    using a b c d e unfolding nq by blast
qed

text \<open>
  The defaults \<^verbatim>\<open>time::now()\<close> on a \<^verbatim>\<open>datetime\<close> field, \<^verbatim>\<open>rand::uuid()\<close> on a \<^verbatim>\<open>string\<close> field,
  \<^verbatim>\<open>true\<close> on a \<^verbatim>\<open>bool\<close> field and \<^verbatim>\<open>now\<close> on a \<^verbatim>\<open>string\<close> field.
\<close>

theorem default_formatting_witness:
  "field_defaultValue createdField = Some ''time::now()'' \<and>
   includes_str ''time::now()'' ''::'' \<and>
   toLowerCase (field_type createdField) = ''datetime'' \<and>
   annotationsStr createdField
     = ''.annotations({ surrealDefault: '' @ sq @ ''time::now()'' @ sq @ '' })'' \<and>
   field_defaultValue tokenField = Some ''rand::uuid()'' \<and>
   includes_str ''rand::uuid()'' ''::'' \<and>
   toLowerCase (field_type tokenField) \<noteq> ''datetime'' \<and>
   annotationsStr tokenField
     = ''.annotations({ default: '' @ sq @ ''rand::uuid()'' @ sq @ '' })'' \<and>
   field_defaultValue activeField = Some ''true'' \<and>
   \<not> includes_str ''true'' ''::'' \<and>
   annotationsStr activeField = ''.annotations({ default: true })'' \<and>
   field_defaultValue stampField = Some ''now'' \<and>
   \<not> includes_str ''now'' ''::'' \<and>
   \<not> numericPattern ''now'' \<and>
   annotationsStr stampField = ''.annotations({ default: '' @ sq @ ''now'' @ sq @ '' })''"
proof -
  have v1: "field_defaultValue createdField = Some ''time::now()''"
    by (simp add: createdField_def)
  have v2: "field_defaultValue tokenField = Some ''rand::uuid()''"
    by (simp add: tokenField_def)
  have v3: "field_defaultValue activeField = Some ''true''"
    by (simp add: activeField_def)
  have v4: "field_defaultValue stampField = Some ''now''"
    by (simp add: stampField_def)
  have n1: "''time::now()'' \<noteq> []" and n2: "''rand::uuid()'' \<noteq> []"
    and n3: "''true'' \<noteq> []" and n4: "''now'' \<noteq> []"
    by simp_all
  have d1: "descriptionAnnotation createdField = []"
    and d2: "descriptionAnnotation tokenField = []"
    and d3: "descriptionAnnotation activeField = []"
    and d4: "descriptionAnnotation stampField = []"
    by (simp_all add: descriptionAnnotation_def createdField_def tokenField_def
        activeField_def stampField_def sampleField_def)
  have t1: "toLowerCase (field_type createdField) = ''datetime''"
    by (simp add: createdField_def sampleField_def case_defs)
  have t2: "toLowerCase (field_type tokenField) \<noteq> ''datetime''"
    by (simp add: tokenField_def sampleField_def case_defs)
  have i1: "includes_str ''time::now()'' ''::''" by simp
  have i2: "includes_str ''rand::uuid()'' ''::''" by simp
  have i3: "\<not> includes_str ''true'' ''::''" by simp
  have i4: "\<not> includes_str ''now'' ''::''" by simp
  have p4: "\<not> numericPattern ''now''"
    by (simp add: numericPattern_def optMinus_def isDigit_def)
  show ?thesis
    using default_formatting [OF v1 n1] default_formatting [OF v2 n2]
      default_formatting [OF v3 n3] default_formatting [OF v4 n4]
    by (simp add: v1 v2 v3 v4 d1 d2 d3 d4 t1 t2 i1 i2 i3 i4 p4)
qed

text \<open>
  The claim as it is written also covers a default value that is present and empty. For
  such a value, which does not contain \<^verbatim>\<open>::\<close> and meets none of the conditions for being
  left unquoted, the claim asks for a \<^verbatim>\<open>default\<close> entry with the value in single quotes.
  The code makes no entry, and the annotation clause is empty.
\<close>

theorem default_formatting_counterexample:
  \<open>field_defaultValue nicknameField = Some [] \<and>
   \<not> includes_str [] ''::'' \<and>
   \<not> (startsWith [] sq \<or> startsWith [] ''"'' \<or> [] = ''true'' \<or> [] = ''false'' \<or>
      numericPattern [] \<or> startsWith [] ''['' \<or> startsWith [] ''{'') \<and>
   defaultAnnotation nicknameField \<noteq> [''default: '' @ sq @ [] @ sq] \<and>
   annotationsStr nicknameField = [] \<and>
   fieldDefinition nicknameField = ''  nickname: Schema.String''\<close>
proof -
  have a: "annotationsStr nicknameField = []"
    by (simp add: nicknameField_def sampleField_def annotation_defs)
  have l: "toLowerCase (field_type nicknameField) = ''string''"
    by (simp add: nicknameField_def sampleField_def case_defs)
  have m: "mappedType nicknameField = ''Schema.String''"
    by (simp add: mappedType_def Let_def a l)
  have f: "fieldDefinition nicknameField = ''  nickname: Schema.String''"
    by (simp add: fieldDefinition_def effectType_def m) (simp add: nicknameField_def sampleField_def)
  have d: "defaultAnnotation nicknameField = []"
    by (simp add: nicknameField_def defaultAnnotation_def)
  have p: "\<not> numericPattern []"
    by (simp add: numericPattern_def optMinus_def)
  show ?thesis
    using a f d p by (simp add: nicknameField_def)
qed

text \<open>
  Claim C5, as amended. For a field whose description is present and not empty, and in
  which every backslash stands directly before a single quote and there is no line
  break, the description entry is a well-formed single-quoted literal: every single
  quote of its text is escaped, and reading the literal back gives the description with
  its backslash-quote pairs turned into quotes. This is the original description exactly
  when the original has no backslash. Nothing is said about a description with a
  backslash in another place or with a line break.
\<close>

theorem description_escaping:
  assumes "field_description field = Some d" and "d \<noteq> []" and "escapesOnlyQuotes d"
  shows
  "descriptionAnnotation field = [''description: '' @ sq @ escapedDescription d @ sq] \<and>
   readLiteral (sq @ escapedDescription d @ sq) = Some (unescapeQuotes d) \<and>
   (readLiteral (sq @ escapedDescription d @ sq) = Some d \<longleftrightarrow> bs \<notin> set d)"
proof (intro conjI)
  show "descriptionAnnotation field = [''description: '' @ sq @ escapedDescription d @ sq]"
    using assms by (simp add: descriptionAnnotation_def)
  have plain: "bs \<notin> set (unescapeQuotes d)" "\<forall>c \<in> set (unescapeQuotes d). \<not> isLineBreak c"
    using unescapeQuotes_plain [OF assms(3)] by simp_all
  show rd: "readLiteral (sq @ escapedDescription d @ sq) = Some (unescapeQuotes d)"
    using readLiteralBody_escapeQuotes [OF plain]
    by (simp add: readLiteral_def escapedDescription_def)
  show "readLiteral (sq @ escapedDescription d @ sq) = Some d \<longleftrightarrow> bs \<notin> set d"
  proof
    assume "readLiteral (sq @ escapedDescription d @ sq) = Some d"
    with rd have fixed: "unescapeQuotes d = d" by simp
    show "bs \<notin> set d"
    proof
      assume "bs \<in> set d"
      with assms(3) have "includes_str d [bs, CHR 0x27]" by (rule escapesOnlyQuotes_backslash)
      then have "length (unescapeQuotes d) < length d" by (rule unescapeQuotes_shorter)
      with fixed show False by simp
    qed
  next
    assume "bs \<notin> set d"
    then have "unescapeQuotes d = d" by (rule unescapeQuotes_no_backslash)
    with rd show "readLiteral (sq @ escapedDescription d @ sq) = Some d" by simp
  qed
qed

text \<open>The description \<^verbatim>\<open>it's\<close> is emitted as \<^verbatim>\<open>'it\'s'\<close> and read back as \<^verbatim>\<open>it's\<close>.\<close>

theorem description_escaping_witness:
  "field_description quotedField = Some ''it's'' \<and>
   ''it's'' \<noteq> [] \<and>
   escapesOnlyQuotes ''it's'' \<and>
   bs \<notin> set ''it's'' \<and>
   descriptionAnnotation quotedField = [''description: '' @ sq @ ''it'' @ [bs] @ sq @ ''s'' @ sq] \<and>
   readLiteral (sq @ ''it'' @ [bs] @ sq @ ''s'' @ sq) = Some ''it's''"
proof -
  have h1: "field_description quotedField = Some ''it's''"
    by (simp add: quotedField_def)
  have h2: "''it's'' \<noteq> []" by simp
  have h3: "escapesOnlyQuotes ''it's''" by (simp add: isLineBreak_def)
  have e: "escapedDescription ''it's'' = ''it'' @ [bs] @ sq @ ''s''"
    by (simp add: escapedDescription_def)
  show ?thesis
    using h1 h3 description_escaping [OF h1 h2 h3] by (simp add: e)
qed

text \<open>
  The claim fails for a description in which a quote is already escaped. The description
  \<^verbatim>\<open>it\'s\<close> is emitted as \<^verbatim>\<open>'it\'s'\<close>, the literal of \<^verbatim>\<open>it's\<close>, and is read back as \<^verbatim>\<open>it's\<close>,
  which is not the original. The source removes the backslash of such a pair before it
  escapes the quotes.
\<close>

theorem description_roundtrip_counterexample:
  "field_description preEscapedField = Some (''it'' @ [bs] @ sq @ ''s'') \<and>
   descriptionAnnotation preEscapedField
     = [''description: '' @ sq @ ''it'' @ [bs] @ sq @ ''s'' @ sq] \<and>
   readLiteral (sq @ ''it'' @ [bs] @ sq @ ''s'' @ sq) = Some ''it's'' \<and>
   ''it's'' \<noteq> ''it'' @ [bs] @ sq @ ''s''"
  by (simp add: preEscapedField_def descriptionAnnotation_def escapedDescription_def
      readLiteral_def isLineBreak_def)

text \<open>
  The source escapes no backslash. A description with a backslash that does not stand
  before a quote is outside the amended claim: for \<^verbatim>\<open>x\\'y\<close> the quote in the emitted text
  follows an escaped backslash and ends the literal early, and for \<^verbatim>\<open>a\<close> followed by a
  backslash the closing quote of the emitted text is escaped.
\<close>

lemma unescaped_backslash_breaks_literal:
  "escapedDescription (''x'' @ [bs, bs] @ sq @ ''y'') = ''x'' @ [bs, bs] @ sq @ ''y'' \<and>
   readLiteral (sq @ ''x'' @ [bs, bs] @ sq @ ''y'' @ sq) = None \<and>
   escapedDescription (''a'' @ [bs]) = ''a'' @ [bs] \<and>
   readLiteral (sq @ ''a'' @ [bs] @ sq) = None"
  by (simp add: escapedDescription_def readLiteral_def isLineBreak_def)


section \<open>The class emitter\<close>

text \<open>
  Claim C1. A table none of whose fields is named \<^verbatim>\<open>id\<close> gets, as the first entry of its
  class body, the field \<^verbatim>\<open>id\<close> bound to \<^verbatim>\<open>recordId\<close> of the name of the table and annotated
  with the description \<^verbatim>\<open>"Unique identifier"\<close>, followed by the declared fields in their
  order. A table with a field named \<^verbatim>\<open>id\<close> gets the declared fields in their order and
  nothing else. The class body is these entries joined by a comma and a line break.
\<close>

theorem implicit_id_synthesis:
  \<open>((\<forall>f \<in> set (table_fields tbl). field_name f \<noteq> ''id'') \<longrightarrow>
      fieldDefinitions tbl =
        (''  id: recordId("'' @ table_name tbl @ ''").annotations({\<newline>''
           @ ''    description: "Unique identifier"\<newline>''
           @ ''  })'')
        # map fieldDefinition (table_fields tbl)) \<and>
   ((\<exists>f \<in> set (table_fields tbl). field_name f = ''id'') \<longrightarrow>
      fieldDefinitions tbl = map fieldDefinition (table_fields tbl)) \<and>
   tableClass capitalizeUnicode tbl =
     tableDescription tbl @ ''\<newline>export class '' @ formatClassName capitalizeUnicode (table_name tbl)
       @ '' extends Schema.Class<'' @ formatClassName capitalizeUnicode (table_name tbl)
       @ ''>("'' @ formatClassName capitalizeUnicode (table_name tbl) @ ''")({\<newline>''
       @ join '',\<newline>'' (fieldDefinitions tbl) @ ''\<newline>}) {}\<newline>''\<close>
proof (intro conjI impI)
  have h: "hasIdField (table_fields tbl) \<longleftrightarrow> (\<exists>f \<in> set (table_fields tbl). field_name f = ''id'')"
    by (simp add: hasIdField_def list_ex_iff)
  {
    assume "\<forall>f \<in> set (table_fields tbl). field_name f \<noteq> ''id''"
    with h have "\<not> hasIdField (table_fields tbl)" by blast
    then show \<open>fieldDefinitions tbl =
        (''  id: recordId("'' @ table_name tbl @ ''").annotations({\<newline>''
           @ ''    description: "Unique identifier"\<newline>''
           @ ''  })'')
        # map fieldDefinition (table_fields tbl)\<close>
      by (simp add: fieldDefinitions_def Let_def idFieldDefinition_def)
  }
  {
    assume "\<exists>f \<in> set (table_fields tbl). field_name f = ''id''"
    with h have "hasIdField (table_fields tbl)" by blast
    then show "fieldDefinitions tbl = map fieldDefinition (table_fields tbl)"
      by (simp add: fieldDefinitions_def Let_def)
  }
  show \<open>tableClass capitalizeUnicode tbl =
     tableDescription tbl @ ''\<newline>export class '' @ formatClassName capitalizeUnicode (table_name tbl)
       @ '' extends Schema.Class<'' @ formatClassName capitalizeUnicode (table_name tbl)
       @ ''>("'' @ formatClassName capitalizeUnicode (table_name tbl) @ ''")({\<newline>''
       @ join '',\<newline>'' (fieldDefinitions tbl) @ ''\<newline>}) {}\<newline>''\<close>
    by (simp add: tableClass_def Let_def)
qed

text \<open>The table \<^verbatim>\<open>user\<close> declares no \<^verbatim>\<open>id\<close>; the table \<^verbatim>\<open>account\<close> does.\<close>

theorem implicit_id_synthesis_witness:
  \<open>map field_name (table_fields userTable) = [''username'', ''age''] \<and>
   fieldDefinitions userTable =
     [''  id: recordId("user").annotations({\<newline>''
        @ ''    description: "Unique identifier"\<newline>''
        @ ''  })'',
      ''  username: Schema.String'',
      ''  age: Schema.optional(Schema.Number.pipe(Schema.int()))''] \<and>
   map field_name (table_fields accountTable) = [''id'', ''email''] \<and>
   fieldDefinitions accountTable = [''  id: Schema.String'', ''  email: Schema.String'']\<close>
proof -
  have a: "annotationsStr (sampleField n ty opt) = []" for n ty opt
    by (simp add: sampleField_def annotation_defs)
  have l1: "toLowerCase (field_type (sampleField n ''string'' opt)) = ''string''" for n opt
    by (simp add: sampleField_def case_defs)
  have l2: "toLowerCase (field_type (sampleField n ''int'' opt)) = ''int''" for n opt
    by (simp add: sampleField_def case_defs)
  have f1: "fieldDefinition (sampleField n ''string'' False) = ''  '' @ n @ '': Schema.String''"
    for n
    by (simp add: fieldDefinition_def effectType_def mappedType_def Let_def a l1)
      (simp add: sampleField_def)
  have f2: "fieldDefinition (sampleField n ''int'' True)
      = ''  '' @ n @ '': Schema.optional(Schema.Number.pipe(Schema.int()))''" for n
    by (simp add: fieldDefinition_def effectType_def mappedType_def Let_def a l2)
      (simp add: sampleField_def)
  have n: "field_name (sampleField n ty opt) = n" for n ty opt
    by (simp add: sampleField_def)
  show ?thesis
    using implicit_id_synthesis [where tbl = userTable and capitalizeUnicode = id]
      implicit_id_synthesis [where tbl = accountTable and capitalizeUnicode = id]
    by (simp add: userTable_def accountTable_def f1 f2 n)
qed

text \<open>
  Claim C7. For the empty list the document is the preamble, which defines the type
  \<^verbatim>\<open>RecordId\<close> and the function \<^verbatim>\<open>recordId\<close>, and a line break. For every list the document is
  the document of the empty list followed by the classes of the tables in the order of
  the list, joined by a line break; every class text ends with a line break, so an empty
  line stands between two classes. A table added at the end of the list adds its class
  at the end of the document and changes nothing before it. A class is declared under
  the name that \<^verbatim>\<open>formatClassName\<close> gives for the name of the table: for a name that starts
  with an ASCII character, the first character in upper case, that is a letter from
  \<^verbatim>\<open>a\<close> to \<^verbatim>\<open>z\<close> replaced by the letter from \<^verbatim>\<open>A\<close> to \<^verbatim>\<open>Z\<close> and any other ASCII character kept,
  and the rest unchanged. Nothing is said about the class name of a table whose name
  starts with a character outside ASCII.
\<close>

theorem document_structure:
  \<open>generateEffectSchemas capitalizeUnicode [] =
     ''import { Schema } from "effect";\<newline>''
     @ ''\<newline>''
     @ ''// Type for representing a RecordId in Effect Schema\<newline>''
     @ ''type RecordId<T extends string = string> = string & {\<newline>''
     @ ''  readonly RecordId: unique symbol;\<newline>''
     @ ''  readonly Table: T;\<newline>''
     @ ''};\<newline>''
     @ ''\<newline>''
     @ ''/**\<newline>''
     @ '' * Create a RecordId schema for a specific table\<newline>''
     @ '' */\<newline>''
     @ ''function recordId<T extends string>(tableName: T): Schema.Schema<RecordId<T>> {\<newline>''
     @ ''  return Schema.String.pipe(\<newline>''
     @ ''    Schema.pattern(/^[a-zA-Z0-9_-]+:[a-zA-Z0-9_-]+$/),\<newline>''
     @ ''    Schema.brand(`RecordId<${tableName}>`),\<newline>''
     @ ''  ) as unknown as Schema.Schema<RecordId<T>>;\<newline>''
     @ ''}\<newline>''
     @ ''\<newline>'' \<and>
   generateEffectSchemas capitalizeUnicode ts =
     generateEffectSchemas capitalizeUnicode []
       @ join ''\<newline>'' (map (tableClass capitalizeUnicode) ts) \<and>
   generateEffectSchemas capitalizeUnicode (ts @ [t]) =
     generateEffectSchemas capitalizeUnicode ts
       @ (if ts = [] then [] else ''\<newline>'') @ tableClass capitalizeUnicode t \<and>
   tableClass capitalizeUnicode t =
     tableDescription t @ ''\<newline>export class '' @ formatClassName capitalizeUnicode (table_name t)
       @ '' extends Schema.Class<'' @ formatClassName capitalizeUnicode (table_name t)
       @ ''>("'' @ formatClassName capitalizeUnicode (table_name t) @ ''")({\<newline>''
       @ join '',\<newline>'' (fieldDefinitions t) @ ''\<newline>}) {}\<newline>'' \<and>
   formatClassName capitalizeUnicode [] = [] \<and>
   (isAscii c \<longrightarrow> formatClassName capitalizeUnicode (c # cs) = upperChar c # cs) \<and>
   map upperChar ''abcdefghijklmnopqrstuvwxyz'' = ''ABCDEFGHIJKLMNOPQRSTUVWXYZ'' \<and>
   (isAscii c \<and> c \<notin> set ''abcdefghijklmnopqrstuvwxyz'' \<longrightarrow> upperChar c = c)\<close>
proof (intro conjI impI)
  show e: \<open>generateEffectSchemas capitalizeUnicode [] =
     ''import { Schema } from "effect";\<newline>''
     @ ''\<newline>''
     @ ''// Type for representing a RecordId in Effect Schema\<newline>''
     @ ''type RecordId<T extends string = string> = string & {\<newline>''
     @ ''  readonly RecordId: unique symbol;\<newline>''
     @ ''  readonly Table: T;\<newline>''
     @ ''};\<newline>''
     @ ''\<newline>''
     @ ''/**\<newline>''
     @ '' * Create a RecordId schema for a specific table\<newline>''
     @ '' */\<newline>''
     @ ''function recordId<T extends string>(tableName: T): Schema.Schema<RecordId<T>> {\<newline>''
     @ ''  return Schema.String.pipe(\<newline>''
     @ ''    Schema.pattern(/^[a-zA-Z0-9_-]+:[a-zA-Z0-9_-]+$/),\<newline>''
     @ ''    Schema.brand(`RecordId<${tableName}>`),\<newline>''
     @ ''  ) as unknown as Schema.Schema<RecordId<T>>;\<newline>''
     @ ''}\<newline>''
     @ ''\<newline>''\<close>
    by (simp add: generateEffectSchemas_def importsText_def)
  have g: "generateEffectSchemas capitalizeUnicode us =
      importsText @ ''\<newline>'' @ join ''\<newline>'' (map (tableClass capitalizeUnicode) us)" for us
    by (simp add: generateEffectSchemas_def)
  show "generateEffectSchemas capitalizeUnicode ts =
     generateEffectSchemas capitalizeUnicode []
       @ join ''\<newline>'' (map (tableClass capitalizeUnicode) ts)"
    by (simp add: g)
  have "join ''\<newline>'' (map (tableClass capitalizeUnicode) (ts @ [t])) =
      join ''\<newline>'' (map (tableClass capitalizeUnicode) ts)
        @ (if ts = [] then [] else ''\<newline>'') @ tableClass capitalizeUnicode t"
    using join_snoc [of "''\<newline>''" "map (tableClass capitalizeUnicode) ts"
        "tableClass capitalizeUnicode t"]
    by simp
  then show "generateEffectSchemas capitalizeUnicode (ts @ [t]) =
     generateEffectSchemas capitalizeUnicode ts
       @ (if ts = [] then [] else ''\<newline>'') @ tableClass capitalizeUnicode t"
    by (simp only: g append_assoc)
  show \<open>tableClass capitalizeUnicode t =
     tableDescription t @ ''\<newline>export class '' @ formatClassName capitalizeUnicode (table_name t)
       @ '' extends Schema.Class<'' @ formatClassName capitalizeUnicode (table_name t)
       @ ''>("'' @ formatClassName capitalizeUnicode (table_name t) @ ''")({\<newline>''
       @ join '',\<newline>'' (fieldDefinitions t) @ ''\<newline>}) {}\<newline>''\<close>
    by (simp add: tableClass_def Let_def)
  show "formatClassName capitalizeUnicode [] = []"
    by (simp add: formatClassName_def charAt_def slice_def toUpperCase_def)
  show "formatClassName capitalizeUnicode (c # cs) = upperChar c # cs" if "isAscii c"
    using that by (simp add: formatClassName_def charAt_def slice_def toUpperCase_def)
  show "map upperChar ''abcdefghijklmnopqrstuvwxyz'' = ''ABCDEFGHIJKLMNOPQRSTUVWXYZ''"
    by (simp add: upperChar_def upperLetters_def lowerLetters_def)
  show "upperChar c = c" if "isAscii c \<and> c \<notin> set ''abcdefghijklmnopqrstuvwxyz''"
    using that by (simp add: upperChar_def upperLetters_def lowerLetters_def)
qed

text \<open>The document for the tables \<^verbatim>\<open>user\<close> and \<^verbatim>\<open>account\<close>.\<close>

theorem document_structure_witness:
  \<open>isAscii CHR ''u'' \<and>
   formatClassName id ''user'' = ''User'' \<and>
   isAscii CHR ''_'' \<and>
   CHR ''_'' \<notin> set ''abcdefghijklmnopqrstuvwxyz'' \<and>
   formatClassName id ''_log'' = ''_log'' \<and>
   generateEffectSchemas id ([userTable] @ [accountTable]) =
     generateEffectSchemas id [userTable] @ ''\<newline>'' @ tableClass id accountTable \<and>
   tableClass id accountTable =
     ''\<newline>export class Account extends Schema.Class<Account>("Account")({\<newline>''
       @ ''  id: Schema.String,\<newline>''
       @ ''  email: Schema.String''
       @ ''\<newline>}) {}\<newline>''\<close>
proof -
  note du = document_structure
    [where capitalizeUnicode = id and ts = "[userTable]" and t = accountTable
       and c = "CHR ''u''" and cs = "''ser''"]
  note dl = document_structure
    [where capitalizeUnicode = id and ts = "[]" and t = accountTable
       and c = "CHR ''_''" and cs = "''log''"]
  note da = document_structure
    [where capitalizeUnicode = id and ts = "[]" and t = accountTable
       and c = "CHR ''a''" and cs = "''ccount''"]
  have i: "isAscii CHR ''u''" "isAscii CHR ''a''" "isAscii CHR ''_''"
    by (simp_all add: isAscii_def)
  have n: "CHR ''_'' \<notin> set ''abcdefghijklmnopqrstuvwxyz''"
    by simp
  have u: "upperChar CHR ''u'' = CHR ''U''" "upperChar CHR ''a'' = CHR ''A''"
    using du [THEN conjunct2, THEN conjunct2, THEN conjunct2, THEN conjunct2, THEN conjunct2,
        THEN conjunct2, THEN conjunct1]
    by simp_all
  have w1: "formatClassName id ''user'' = ''User''"
    using i u du [THEN conjunct2, THEN conjunct2, THEN conjunct2, THEN conjunct2,
        THEN conjunct2, THEN conjunct1]
    by simp
  have w2: "formatClassName id ''_log'' = ''_log''"
    using i n dl [THEN conjunct2, THEN conjunct2, THEN conjunct2, THEN conjunct2,
        THEN conjunct2, THEN conjunct1]
      dl [THEN conjunct2, THEN conjunct2, THEN conjunct2, THEN conjunct2,
        THEN conjunct2, THEN conjunct2, THEN conjunct2]
    by simp
  have w3: "generateEffectSchemas id ([userTable] @ [accountTable]) =
      generateEffectSchemas id [userTable] @ ''\<newline>'' @ tableClass id accountTable"
    using du [THEN conjunct2, THEN conjunct2, THEN conjunct1] by simp
  have fa: "formatClassName id ''account'' = ''Account''"
    using i u da [THEN conjunct2, THEN conjunct2, THEN conjunct2, THEN conjunct2,
        THEN conjunct2, THEN conjunct1]
    by simp
  have a: "annotationsStr (sampleField n ty opt) = []" for n ty opt
    by (simp add: sampleField_def annotation_defs)
  have l1: "toLowerCase (field_type (sampleField n ''string'' opt)) = ''string''" for n opt
    by (simp add: sampleField_def case_defs)
  have f1: "fieldDefinition (sampleField n ''string'' False) = ''  '' @ n @ '': Schema.String''"
    for n
    by (simp add: fieldDefinition_def effectType_def mappedType_def Let_def a l1)
      (simp add: sampleField_def)
  have fd: "fieldDefinitions accountTable = [''  id: Schema.String'', ''  email: Schema.String'']"
    by (simp add: fieldDefinitions_def hasIdField_def accountTable_def f1)
      (simp add: sampleField_def)
  have td: "tableDescription accountTable = []"
    by (simp add: tableDescription_def accountTable_def)
  have tn: "table_name accountTable = ''account''"
    by (simp add: accountTable_def)
  have w4: \<open>tableClass id accountTable =
     ''\<newline>export class Account extends Schema.Class<Account>("Account")({\<newline>''
       @ ''  id: Schema.String,\<newline>''
       @ ''  email: Schema.String''
       @ ''\<newline>}) {}\<newline>''\<close>
    using da [THEN conjunct2, THEN conjunct2, THEN conjunct2, THEN conjunct1]
    by (simp add: fd td tn fa)
  show ?thesis
    using i n w1 w2 w3 w4 by blast
qed


section \<open>Failures of a call\<close>

text \<open>
  Claim C6, as amended. Called with a value whose present parts have their declared
  types, the generator throws exactly when the list of tables is missing, or a table
  has no name, which then cannot be formatted, or a table has no field list, or a field
  has no type tag. In every other case, and so for a table whose name is the empty
  string, it returns the generated text.
\<close>

theorem failure_conditions:
  "((\<exists>e. generateEffectSchemasCall uc tables = Inl e) \<longleftrightarrow>
      (tables = None \<or>
       (\<exists>ts. tables = Some ts \<and>
          (\<exists>tbl \<in> set ts.
             raw_table_name tbl = None \<or> raw_fields tbl = None \<or>
             (\<exists>flds. raw_fields tbl = Some flds \<and>
                (\<exists>field \<in> set flds. raw_type field = None)))))) \<and>
   ((\<exists>doc. generateEffectSchemasCall uc tables = Inr doc) \<longleftrightarrow>
      \<not> (\<exists>e. generateEffectSchemasCall uc tables = Inl e))"
proof (intro conjI)
  show "(\<exists>e. generateEffectSchemasCall uc tables = Inl e) \<longleftrightarrow>
      (tables = None \<or>
       (\<exists>ts. tables = Some ts \<and>
          (\<exists>tbl \<in> set ts.
             raw_table_name tbl = None \<or> raw_fields tbl = None \<or>
             (\<exists>flds. raw_fields tbl = Some flds \<and>
                (\<exists>field \<in> set flds. raw_type field = None)))))"
  proof (cases tables)
    case None
    then show ?thesis by (simp add: generateEffectSchemasCall_def receiver_def)
  next
    case (Some ts)
    have "(\<exists>e. generateEffectSchemasCall uc tables = Inl e) \<longleftrightarrow>
        (\<exists>e. mapE (tableClassCall uc) ts = Inl e)"
      using Some by (cases "mapE (tableClassCall uc) ts")
        (simp_all add: generateEffectSchemasCall_def receiver_def)
    also have "\<dots> \<longleftrightarrow> (\<exists>tbl \<in> set ts. \<exists>e. tableClassCall uc tbl = Inl e)"
      by (rule mapE_Inl_iff)
    finally show ?thesis
      using Some by (simp add: tableClassCall_Inl_iff)
  qed
  show "(\<exists>doc. generateEffectSchemasCall uc tables = Inr doc) \<longleftrightarrow>
      \<not> (\<exists>e. generateEffectSchemasCall uc tables = Inl e)"
    by (cases "generateEffectSchemasCall uc tables") simp_all
qed

text \<open>
  A call without a list, and calls with a table without name, a table without field
  list and a table with a field without type tag, fail; the call with the table \<^verbatim>\<open>user\<close>
  returns its document.
\<close>

theorem failure_conditions_witness:
  "generateEffectSchemasCall id None = Inl TypeError \<and>
   generateEffectSchemasCall id (Some [noNameTable]) = Inl TypeError \<and>
   generateEffectSchemasCall id (Some [noFieldsTable]) = Inl TypeError \<and>
   generateEffectSchemasCall id (Some [untypedFieldTable]) = Inl TypeError \<and>
   generateEffectSchemasCall id (Some [rawTable userTable])
     = Inr (generateEffectSchemas id [userTable])"
proof -
  have e: "x = Inl TypeError" if "\<exists>e. x = Inl e" for x :: "error + string"
    using that by (metis error.exhaust)
  have 1: "generateEffectSchemasCall id None = Inl TypeError"
    using failure_conditions [of id None] by (intro e) simp
  have 2: "generateEffectSchemasCall id (Some [noNameTable]) = Inl TypeError"
    using failure_conditions [of id "Some [noNameTable]"]
    by (intro e) (simp add: noNameTable_def)
  have 3: "generateEffectSchemasCall id (Some [noFieldsTable]) = Inl TypeError"
    using failure_conditions [of id "Some [noFieldsTable]"]
    by (intro e) (simp add: noFieldsTable_def)
  have 4: "generateEffectSchemasCall id (Some [untypedFieldTable]) = Inl TypeError"
    using failure_conditions [of id "Some [untypedFieldTable]"]
    by (intro e) (simp add: untypedFieldTable_def)
  have 5: "generateEffectSchemasCall id (Some [rawTable userTable])
      = Inr (generateEffectSchemas id [userTable])"
    using generateEffectSchemasCall_typed [of id "[userTable]"] by simp
  show ?thesis
    using 1 2 3 4 5 by simp
qed

text \<open>
  The claim asks for a failure when the name of a table is empty, and for a normal
  return in every case it does not list. For the list that holds one table of empty
  name and no fields the generator returns a document, with a class of empty name. For
  the list that holds one table with the name \<^verbatim>\<open>user\<close> and without a field list, a case
  the claim does not list, the generator throws.
\<close>

theorem empty_name_counterexample:
  \<open>raw_table_name emptyNameTable = Some [] \<and>
   generateEffectSchemasCall id (Some [emptyNameTable]) =
     Inr (generateEffectSchemas id []
          @ ''\<newline>export class  extends Schema.Class<>("")({\<newline>''
          @ ''  id: recordId("").annotations({\<newline>''
          @ ''    description: "Unique identifier"\<newline>''
          @ ''  })''
          @ ''\<newline>}) {}\<newline>'') \<and>
   raw_table_name noFieldsTable = Some ''user'' \<and>
   generateEffectSchemasCall id (Some [noFieldsTable]) = Inl TypeError\<close>
proof -
  have f: "formatClassName id [] = []"
    by (simp add: formatClassName_def charAt_def slice_def toUpperCase_def)
  have c: \<open>tableClassCall id emptyNameTable =
      Inr (''\<newline>export class  extends Schema.Class<>("")({\<newline>''
          @ ''  id: recordId("").annotations({\<newline>''
          @ ''    description: "Unique identifier"\<newline>''
          @ ''  })''
          @ ''\<newline>}) {}\<newline>'')\<close>
    by (simp add: tableClassCall_def receiver_def emptyNameTable_def tableClass_def Let_def
        tableDescription_def fieldDefinitions_def hasIdField_def idFieldDefinition_def f)
  have d: "generateEffectSchemasCall id (Some [emptyNameTable]) =
      Inr (generateEffectSchemas id []
          @ ''\<newline>export class  extends Schema.Class<>(\"\")({\<newline>''
          @ ''  id: recordId(\"\").annotations({\<newline>''
          @ ''    description: \"Unique identifier\"\<newline>''
          @ ''  })''
          @ ''\<newline>}) {}\<newline>'')"
    by (simp add: generateEffectSchemasCall_def receiver_def c generateEffectSchemas_def)
  have n: "generateEffectSchemasCall id (Some [noFieldsTable]) = Inl TypeError"
    by (simp add: generateEffectSchemasCall_def receiver_def tableClassCall_def noFieldsTable_def)
  show ?thesis
    using d n by (simp add: emptyNameTable_def noFieldsTable_def)
qed

end
